theory Spec2Isabelle
  imports Main "HOL-Library.Word"
begin

unbundle bit_operations_syntax

section \<open>Data model of the RTEmsg decoder\<close>

text \<open>
  The decoder keeps its whole state in one global aggregate \<open>g_msg\<close> (main.h) and in the
  table of decoding plans \<open>g_fmt\<close> (format.c). The model passes that state explicitly.
  C's \<open>uint32_t\<close>, \<open>uint16_t\<close> and \<open>uint8_t\<close> are words of that width, so that
  \<open>+\<close> and \<open>-\<close> wrap around as in the program. A \<open>double\<close> is carried as its
  64-bit pattern: the model copies doubles but performs no arithmetic on them.
\<close>

type_synonym u8 = "8 word"
type_synonym u16 = "16 word"
type_synonym u32 = "32 word"
type_synonym u64 = "64 word"
type_synonym double = "64 word"
type_synonym rte_enum_t = "16 word"

subsection \<open>Compile time configuration (rtemsg_config.h)\<close>

definition MAX_FMT_ID_BITS :: nat where "MAX_FMT_ID_BITS = 16"
definition MAX_FMT_IDS :: nat where "MAX_FMT_IDS = 2 ^ MAX_FMT_ID_BITS"
definition NUMBER_OF_FILTER_BITS :: nat where "NUMBER_OF_FILTER_BITS = 32"
definition MAX_ERRORS_IN_SINGLE_MESSAGE :: nat where "MAX_ERRORS_IN_SINGLE_MESSAGE = 10"
definition MAX_SHORTENED_STRING :: nat where "MAX_SHORTENED_STRING = 80"
definition MAX_RAW_DATA_SIZE :: nat where "MAX_RAW_DATA_SIZE = 256"
definition MAX_ENUMS :: nat where "MAX_ENUMS = 2000"
definition FIRST_FATAL_ERROR :: nat where "FIRST_FATAL_ERROR = 30"
definition NORMALIZED_TSTAMP_PERIOD :: int where "NORMALIZED_TSTAMP_PERIOD = 2 ^ 32"

text \<open>
  The numbering of the error codes lives in messages.h, which is not part of the sources
  at hand. main.c pins two of its values with \<open>static_assert\<close>; the others are taken as
  parameters of the model, collected in the record \<open>messages_h\<close>.
\<close>

definition FIRST_ERROR :: nat where "FIRST_ERROR = 100"
definition ERR_PARSE_UNKNOWN :: nat where "ERR_PARSE_UNKNOWN = 200"

record messages_h =
  ERR_DECODE_UNKNOWN_ERROR :: u32
  ERR_INTERNAL_ERROR :: u32
  ERR_DECODE_VALUE_SIZE_TOO_LARGE :: u32
  ERR_DECODE_VALUE_NOT_IN_MESSAGE :: u32
  ERR_MSGX_SIZE_EMPTY :: u32
  ERR_MSGX_SIZE_TOO_LARGE :: u32
  ERR_MSGX_SIZE_TOO_SMALL :: u32
  ERR_MSGX_CORRUPTED :: u32
  ERR_MESSAGE_TOO_LONG :: u32
  FATAL_LAST :: u32
  TOTAL_ERRORS :: u32

text \<open>The internal error numbers of errors.h (\<open>enum internal_errors_t\<close>).\<close>

definition INT_SET_MEMO_OUT_OF_RANGE :: u32 where "INT_SET_MEMO_OUT_OF_RANGE = 1"
definition INT_SET_MEMO_TYPE_IS_NOT_MEMO :: u32 where "INT_SET_MEMO_TYPE_IS_NOT_MEMO = 3"
definition INT_DECODE_Y_TYPE_STRING :: u32 where "INT_DECODE_Y_TYPE_STRING = 14"
definition INT_DECODE_Y_TYPE_STRING_NULL :: u32 where "INT_DECODE_Y_TYPE_STRING_NULL = 15"

subsection \<open>Format definitions (format.h)\<close>

datatype fmt_type_t =
    PRINT_PLAIN_TEXT | PRINT_STRING | PRINT_SELECTED_TEXT | PRINT_UINT64 | PRINT_INT64
  | PRINT_DOUBLE | PRINT_BINARY | PRINT_TIMESTAMP | PRINT_dTIMESTAMP | PRINT_MSG_NO
  | PRINT_HEX1U | PRINT_HEX2U | PRINT_HEX4U | PRINT_BIN_TO_FILE | PRINT_DATE
  | PRINT_MSG_FMT_ID_NAME

datatype data_type_t =
    VALUE_AUTO | VALUE_UINT64 | VALUE_INT64 | VALUE_DOUBLE | VALUE_STRING | VALUE_TIMESTAMP
  | VALUE_dTIMESTAMP | VALUE_MEMO | VALUE_TIME_DIFF | VALUE_MESSAGE_NO

record value_format_t =
  fmt_string :: "string option"
  out_file :: rte_enum_t
  in_file :: rte_enum_t
  get_memo :: rte_enum_t
  put_memo :: rte_enum_t
  bit_address :: u32
  data_size :: u32
  data_type :: data_type_t
  fmt_type :: fmt_type_t
  print_copy_to_main_log :: bool
  mult :: double
  offset :: double

datatype msg_type_t = TYPE_MSG0_8 | TYPE_MSGN | TYPE_EXT_MSG | TYPE_MSGX

text \<open>
  A decoding plan. The linked list of value descriptors hanging off \<open>format\<close> is a list.
  Plans are referred to by pointer: several entries of \<open>g_fmt\<close> share one plan.
\<close>

record msg_data_t =
  message_name :: "string option"
  msg_type :: msg_type_t
  ext_data_mask :: u16
  msg_len :: u32
  counter :: u32
  format :: "value_format_t list"

type_synonym plan_ptr = nat

subsection \<open>The enum table (main.h)\<close>

datatype enums_type_t = FILTER_TYPE | OUT_FILE_TYPE | IN_FILE_TYPE | Y_TEXT_TYPE | MEMO_TYPE

text \<open>
  The anonymous union of \<open>enum_data_t\<close>: exactly one member is stored at a time. The
  indexed text of an \<open>IN_FILE\<close> or a \<open>{a|b|c}\<close> list is the byte blob itself; a file
  pointer is a handle.
\<close>

datatype def_union =
    filter_description "string option"
  | p_file "nat option"
  | in_file_txt "u8 list option"
  | memo_value double

record enum_data_t =
  name :: "string option"
  type :: enums_type_t
  payload :: def_union

subsection \<open>Working variables (main.h)\<close>

record value_t =
  data_double :: double
  data_i64 :: u64
  data_u64 :: u64

record error_log_t =
  error_number :: u32
  value_number :: u32
  data1 :: u32
  data2 :: u32
  fmt_text :: "string option"

record timestamp_t =
  h :: u32
  l :: u32
  old :: u32
  searched_to_index :: u32
  msg_long_tstamp_incremented :: u32
  mark_problematic_tstamps :: bool
  no_previous_tstamp :: bool

record param_t =
  max_positive_tstamp_diff :: int
  max_negative_tstamp_diff :: int

record rte_header_data_t =
  topmost_fmt_id :: u32
  long_timestamp_used :: bool
  max_msg_blocks :: u16
  fmt_id_bits :: u8
  fmt_id_shift :: u8
  timestamp_and_index_mask :: u32

text \<open>
  What the program writes to a log file, one item per report. The texts themselves come
  from Messages.txt through printf and are not modelled; an item keeps the numbers that
  are printed.
\<close>

datatype out_item =
    Text string
  | Problem u32 u32 u32
  | Problem2 u32 u32 u32 u32
  | HexDumpBytes u32 "u8 list"
  | HexDumpWords u32 "u32 list"
  | DecodingErrorsFound u32
  | TooManyErrors nat
  | ErrorRaw u32 u32 u32 u32
  | ErrorLine u32 string u32 u32 u32

text \<open>A \<open>FILE *\<close>: \<open>None\<close> is the null pointer, otherwise what has been written so far.\<close>

type_synonym file_t = "out_item list option"

record rte_msg_t =
  main_log :: file_t
  error_log_file :: file_t
  param :: param_t
  hdr_data :: rte_header_data_t
  timestamp :: timestamp_t
  fmt_id :: u32
  additional_data :: u32
  asm_words :: u32
  asm_size :: u32
  assembled_msg :: "u32 list"
  "value" :: value_t
  print_nl_to_main_log :: bool
  index :: u32
  message_cnt :: u32
  in_size :: u32
  rte_buffer :: "u32 list"
  raw_data :: "u32 list"
  enums :: "nat \<Rightarrow> enum_data_t"
  fmt_ids_defined :: u32
  fmt_align_value :: u32
  unfinished_words :: u32
  bad_packet_words :: u32
  error_log :: "nat \<Rightarrow> error_log_t"
  msg_error_counter :: u32
  error_value_no :: u32
  total_errors :: u32
  error_counter :: "nat \<Rightarrow> u32"
  g_fmt :: "nat \<Rightarrow> plan_ptr option"
  plans :: "plan_ptr \<Rightarrow> msg_data_t"

section \<open>Recording decoding errors (print_helper.c)\<close>

text \<open>
  \<open>save_decoding_error\<close>: the error code is normalised, both counters are bumped, and
  the error is stored only while the per-message log has room. The arrays
  \<open>error_counter\<close> and \<open>error_log\<close> are indexed inside their bounds: the code is below
  \<open>ERR_PARSE_UNKNOWN\<close> or the unknown-error code, and the log index is below
  \<open>MAX_ERRORS_IN_SINGLE_MESSAGE\<close>.
\<close>

definition normalize_err_no :: "messages_h \<Rightarrow> u32 \<Rightarrow> u32" where
  "normalize_err_no M err_no =
     (if unat err_no < FIRST_ERROR \<or> unat err_no \<ge> ERR_PARSE_UNKNOWN
      then ERR_DECODE_UNKNOWN_ERROR M else err_no)"

definition save_decoding_error ::
  "messages_h \<Rightarrow> u32 \<Rightarrow> u32 \<Rightarrow> u32 \<Rightarrow> string option \<Rightarrow> rte_msg_t \<Rightarrow> rte_msg_t" where
  "save_decoding_error M err_no d1 d2 txt s =
     (let e = normalize_err_no M err_no;
          s1 = s\<lparr>total_errors := total_errors s + 1,
                 error_counter := (error_counter s)(unat e := error_counter s (unat e) + 1)\<rparr>
      in if unat (msg_error_counter s1) \<ge> MAX_ERRORS_IN_SINGLE_MESSAGE then s1
         else s1\<lparr>error_log := (error_log s1)(unat (msg_error_counter s1) :=
                      \<lparr>error_number = e, value_number = error_value_no s1,
                       data1 = d1, data2 = d2, fmt_text = txt\<rparr>),
                  msg_error_counter := msg_error_counter s1 + 1\<rparr>)"

definition save_internal_decoding_error :: "messages_h \<Rightarrow> u32 \<Rightarrow> u32 \<Rightarrow> rte_msg_t \<Rightarrow> rte_msg_t" where
  "save_internal_decoding_error M sys_error d2 s =
     save_decoding_error M (ERR_INTERNAL_ERROR M) sys_error d2 (Some []) s"

section \<open>Storing a value to a memo (print_message.c)\<close>

definition save_to_memo :: "messages_h \<Rightarrow> rte_enum_t \<Rightarrow> rte_msg_t \<Rightarrow> rte_msg_t" where
  "save_to_memo M memo s =
     (if unat memo \<ge> NUMBER_OF_FILTER_BITS \<and> unat memo < MAX_ENUMS then
        (if type (enums s (unat memo)) = MEMO_TYPE
         then s\<lparr>enums := (enums s)(unat memo :=
                   (enums s (unat memo))\<lparr>payload := memo_value (data_double (value s))\<rparr>)\<rparr>
         else save_internal_decoding_error M INT_SET_MEMO_TYPE_IS_NOT_MEMO (ucast memo) s)
      else save_internal_decoding_error M INT_SET_MEMO_OUT_OF_RANGE (ucast memo) s)"


section \<open>Timestamp reconstruction (timestamp.h)\<close>

text \<open>
  The \<open>int64_t\<close> values of the program are integers; \<open>s64\<close> is the wrap-around of a
  64-bit signed result. The time difference of two 32-bit counters is computed in 64 bits
  and cannot wrap.
\<close>

definition s64 :: "int \<Rightarrow> int" where
  "s64 x = (x + 2 ^ 63) mod 2 ^ 64 - 2 ^ 63"

definition MSG1_SYS_LONG_TIMESTAMP :: u32 where "MSG1_SYS_LONG_TIMESTAMP = 0"
definition MSG1_SYS_TSTAMP_FREQUENCY :: u32 where "MSG1_SYS_TSTAMP_FREQUENCY = 2"

definition MSG1_SYS_STREAMING_MODE_LOGGING :: "rte_msg_t \<Rightarrow> u32" where
  "MSG1_SYS_STREAMING_MODE_LOGGING s = topmost_fmt_id (hdr_data s)"

text \<open>
  \<open>fmt_id_valid\<close>: the format ID is taken out of the FMT word and the length of the
  sub-packet is compared with the plan. The result is the verdict and the format ID.
\<close>

definition fmt_id_valid :: "rte_msg_t \<Rightarrow> u32 \<Rightarrow> u32 \<Rightarrow> bool \<times> u32" where
  "fmt_id_valid s w data_words =
     (if w = 0xFFFFFFFF then (False, w)
      else let fid = drop_bit (unat (fmt_id_shift (hdr_data s))) w in
        if unat fid \<ge> MAX_FMT_IDS then (False, fid)
        else case g_fmt s (unat fid) of
          None \<Rightarrow> (False, fid)
        | Some p \<Rightarrow>
            let len = msg_len (plans s p) div 4 in
            (case msg_type (plans s p) of
               TYPE_MSGX \<Rightarrow> (True, fid)
             | TYPE_MSGN \<Rightarrow>
                 (len = 0 \<or> data_words = 4 \<or> data_words AND 3 = len AND 3, fid)
             | TYPE_EXT_MSG \<Rightarrow> (len - 1 = data_words, fid)
             | TYPE_MSG0_8 \<Rightarrow> (len = data_words, fid)))"

text \<open>
  \<open>small_tstamp_difference\<close> works on two local variables of the search (the counter of
  overflows and the previous low part); the result is the verdict and their new values.
\<close>

definition small_tstamp_difference ::
  "rte_msg_t \<Rightarrow> u32 \<Rightarrow> u32 \<Rightarrow> u32 \<Rightarrow> bool \<times> u32 \<times> u32" where
  "small_tstamp_difference s tstamp_h_counter old_tstamp_l new_tstamp_l =
     (let time_diff = uint new_tstamp_l - uint old_tstamp_l;
          max_pos = max_positive_tstamp_diff (param s);
          max_neg = max_negative_tstamp_diff (param s)
      in if time_diff \<ge> 0 \<and> time_diff \<le> max_pos then (True, tstamp_h_counter, new_tstamp_l)
         else if time_diff < 0 \<and> time_diff \<ge> max_neg then (True, tstamp_h_counter, old_tstamp_l)
         else if uint (old (timestamp s)) \<ge> NORMALIZED_TSTAMP_PERIOD div 2
                 \<and> time_diff \<le> s64 (- s64 (NORMALIZED_TSTAMP_PERIOD - max_pos))
              then (True, tstamp_h_counter + 1, new_tstamp_l)
         else if uint (old (timestamp s)) < NORMALIZED_TSTAMP_PERIOD div 2
                 \<and> time_diff \<ge> s64 (NORMALIZED_TSTAMP_PERIOD + max_neg)
              then (True, tstamp_h_counter, old_tstamp_l)
         else (False, tstamp_h_counter, old_tstamp_l))"

text \<open>A loop index below a 32-bit bound can be incremented without wrapping.\<close>

lemma u32_index_step:
  fixes idx n :: u32
  assumes "idx < n"
  shows "unat n - unat (idx + 1) < unat n - unat idx"
proof -
  from assms have lt: "unat idx < unat n" by (simp add: word_less_nat_alt)
  moreover have "unat n < 2 ^ 32" using unsigned_less [of n, where 'a = nat] by simp
  ultimately have "unat idx + 1 < 2 ^ 32" by simp
  then have "unat (idx + 1) = unat idx + 1" by (simp add: unat_word_ariths)
  with lt show ?thesis by simp
qed

text \<open>
  The forward scan of \<open>long_timestamp_found\<close>. The loop variables are the buffer index,
  the last word read, the previous low part, the overflow counter and the number of DATA
  words seen since the last FMT word. The index grows in every round, up to \<open>in_size\<close>.
\<close>

function long_timestamp_scan ::
  "rte_msg_t \<Rightarrow> u32 \<Rightarrow> u32 \<Rightarrow> u32 \<Rightarrow> u32 \<Rightarrow> u32 \<Rightarrow> bool \<times> rte_msg_t" where
  "long_timestamp_scan s idx data old_timestamp_l tstamp_h_counter data_words =
     (if \<not> idx < in_size s then (False, s)
      else
        let previous_data = data;
            data = rte_buffer s ! unat idx;
            idx' = idx + 1;
            s1 = s\<lparr>timestamp := (timestamp s)\<lparr>searched_to_index := idx'\<rparr>\<rparr>
        in if data AND 1 = 0 then
             (if data_words + 1 > 4 then (False, s1)
              else long_timestamp_scan s1 idx' data old_timestamp_l tstamp_h_counter
                     (data_words + 1))
           else
             (case fmt_id_valid s1 data data_words of
                (False, _) \<Rightarrow> long_timestamp_scan s1 idx' data old_timestamp_l tstamp_h_counter 0
              | (True, fid) \<Rightarrow>
                  let new_timestamp_l =
                        push_bit (unat (fmt_id_bits (hdr_data s1))) (data AND 0xFFFFFFFE)
                  in if fid = MSG1_SYS_STREAMING_MODE_LOGGING s1 \<and> data_words = 1
                     then (False, s1)
                     else if fid = MSG1_SYS_LONG_TIMESTAMP \<and> data_words = 1 then
                       (let timestamp_h = drop_bit 1 previous_data OR
                              (push_bit (unat (ucast (fmt_id_bits (hdr_data s1)) - (1 :: u32))) data
                                 AND 0x80000000)
                        in if timestamp_h = 0xFFFFFFFF then (False, s1)
                           else if timestamp_h \<ge> tstamp_h_counter then
                             (case small_tstamp_difference s1 tstamp_h_counter old_timestamp_l
                                     new_timestamp_l of
                                (False, _, _) \<Rightarrow> (False, s1)
                              | (True, hc, _) \<Rightarrow>
                                  (True, s1\<lparr>timestamp := (timestamp s1)\<lparr>h := timestamp_h - hc\<rparr>\<rparr>))
                           else (False, s1))
                     else
                       (case small_tstamp_difference s1 tstamp_h_counter old_timestamp_l
                               new_timestamp_l of
                          (False, _, _) \<Rightarrow> (False, s1)
                        | (True, hc, ol) \<Rightarrow> long_timestamp_scan s1 idx' data ol hc 0)))"
  by pat_completeness auto
termination
  by (relation "measure (\<lambda>(s, idx, _). unat (in_size s) - unat idx)")
     (simp_all add: u32_index_step)

definition long_timestamp_found :: "rte_msg_t \<Rightarrow> bool \<times> rte_msg_t" where
  "long_timestamp_found s =
     (if \<not> long_timestamp_used (hdr_data s) then (False, s)
      else if index s \<ge> in_size s then (False, s)
      else long_timestamp_scan s (index s) 0xFFFFFFFF (l (timestamp s)) 0 0)"

definition full_timestamp :: "rte_msg_t \<Rightarrow> u64" where
  "full_timestamp s = push_bit 32 (ucast (h (timestamp s))) OR ucast (l (timestamp s))"

text \<open>
  \<open>process_timestamp_value\<close>: the argument is the 64-bit timestamp prepared by the
  caller, the result is its new value and the new state. The \<open>if\<close> chain of the source
  yields the timestamp, the state and its two local flags.
\<close>

definition process_timestamp_value :: "u64 \<Rightarrow> rte_msg_t \<Rightarrow> u64 \<times> rte_msg_t" where
  "process_timestamp_value new_timestamp s =
     (let time_diff = uint (l (timestamp s)) - uint (old (timestamp s));
          max_pos = max_positive_tstamp_diff (param s);
          max_neg = max_negative_tstamp_diff (param s);
          (ts1, s1, search_next_long_tstamp, update_old_tstamp_value) =
            (if time_diff \<ge> 0 \<and> time_diff \<le> max_pos then
               (new_timestamp, s, False, True)
             else if time_diff < 0 \<and> time_diff \<ge> max_neg then
               (new_timestamp, s, False, False)
             else if uint (old (timestamp s)) \<ge> NORMALIZED_TSTAMP_PERIOD div 2
                 \<and> time_diff \<le> s64 (- s64 (NORMALIZED_TSTAMP_PERIOD - max_pos))
                 \<and> \<not> no_previous_tstamp (timestamp s) then
               (let s' = (if message_cnt s - msg_long_tstamp_incremented (timestamp s) \<ge> 4
                          then s\<lparr>timestamp := (timestamp s)
                                  \<lparr>msg_long_tstamp_incremented := message_cnt s,
                                   h := h (timestamp s) + 1\<rparr>\<rparr>
                          else s)
                in (full_timestamp s', s', False, True))
             else if uint (old (timestamp s)) < NORMALIZED_TSTAMP_PERIOD div 2
                 \<and> time_diff \<ge> s64 (NORMALIZED_TSTAMP_PERIOD + max_neg)
                 \<and> \<not> no_previous_tstamp (timestamp s) then
               (let stamp = (if h (timestamp s) > 0 then h (timestamp s) - 1 else 0)
                in (push_bit 32 (ucast stamp) OR ucast (l (timestamp s)), s, False, False))
             else
               (new_timestamp,
                s\<lparr>timestamp := (timestamp s)
                    \<lparr>mark_problematic_tstamps := \<not> no_previous_tstamp (timestamp s)\<rparr>\<rparr>,
                True, True));
          s2 = (if update_old_tstamp_value \<or> no_previous_tstamp (timestamp s1)
                then s1\<lparr>timestamp := (timestamp s1)\<lparr>old := l (timestamp s1)\<rparr>\<rparr> else s1)
      in if (search_next_long_tstamp \<and> searched_to_index (timestamp s2) < index s2)
            \<or> no_previous_tstamp (timestamp s2)
         then (case long_timestamp_found s2 of
                 (True, s3) \<Rightarrow>
                   (full_timestamp s3, s3\<lparr>timestamp := (timestamp s3)\<lparr>old := l (timestamp s3)\<rparr>\<rparr>)
               | (False, s3) \<Rightarrow> (ts1, s3))
         else (ts1, s2))"

text \<open>
  \<open>prepare_timestamp_value\<close>, without the conversion of the result to seconds (a
  floating point product). The flag \<open>long_timestamp_found\<close> of the state is not modelled.
\<close>

definition prepare_timestamp_value :: "rte_msg_t \<Rightarrow> u64 \<times> rte_msg_t" where
  "prepare_timestamp_value s =
     (let new_timestamp = full_timestamp s;
          (ts, s1) =
            (if fmt_id s = MSG1_SYS_LONG_TIMESTAMP
             then (new_timestamp, s\<lparr>timestamp := (timestamp s)\<lparr>old := l (timestamp s)\<rparr>\<rparr>)
             else if fmt_id s \<noteq> MSG1_SYS_STREAMING_MODE_LOGGING s
             then process_timestamp_value new_timestamp s
             else (new_timestamp, s))
      in (ts, s1\<lparr>timestamp := (timestamp s1)\<lparr>no_previous_tstamp := False\<rparr>\<rparr>))"

text \<open>
  The bounds of the two parameters that \<open>check_timestamp_diff_values\<close> (cmd_line.c)
  enforces are tighter than this; what the reconstruction needs is that both have the
  right sign and that the two windows together are shorter than one period.
\<close>

definition ts_params_ok :: "param_t \<Rightarrow> bool" where
  "ts_params_ok p \<longleftrightarrow> 0 < max_positive_tstamp_diff p \<and> max_negative_tstamp_diff p < 0
     \<and> max_positive_tstamp_diff p - max_negative_tstamp_diff p < NORMALIZED_TSTAMP_PERIOD"

text \<open>
  Before the timestamp of a message is prepared, \<open>process_the_message_packet\<close> has
  stored the normalised low part taken from the FMT word and \<open>process_message\<close> has
  counted the message.
\<close>

definition message_arrives :: "u32 \<Rightarrow> rte_msg_t \<Rightarrow> rte_msg_t" where
  "message_arrives tstamp_l s =
     s\<lparr>timestamp := (timestamp s)\<lparr>l := tstamp_l\<rparr>, message_cnt := message_cnt s + 1\<rparr>"

section \<open>Reporting problems (errors.c, print_helper.c)\<close>

text \<open>
  Writing one item to a file. Nothing can be written through a null pointer.
\<close>

definition fprintf :: "out_item \<Rightarrow> file_t \<Rightarrow> file_t" where
  "fprintf it f = map_option (\<lambda>xs. xs @ [it]) f"

text \<open>
  \<open>report_problem\<close> and \<open>report_problem2\<close> normalise the error code, write the report
  to Errors.log and to Main.log when these are open (they are two different files), and
  bump the counters. A report is the message number, the code and the additional data.
\<close>

definition problem_code :: "messages_h \<Rightarrow> u32 \<Rightarrow> u32" where
  "problem_code M error_code =
     (if error_code \<ge> TOTAL_ERRORS M \<or> unat error_code < FIRST_FATAL_ERROR
      then FATAL_LAST M else error_code)"

definition problem2_code :: "messages_h \<Rightarrow> u32 \<Rightarrow> u32" where
  "problem2_code M error_code =
     (if unat error_code < FIRST_ERROR \<or> error_code \<ge> TOTAL_ERRORS M
      then ERR_DECODE_UNKNOWN_ERROR M else error_code)"

definition report_problem :: "messages_h \<Rightarrow> u32 \<Rightarrow> u32 \<Rightarrow> rte_msg_t \<Rightarrow> rte_msg_t" where
  "report_problem M error_code add_data s =
     (let e = problem_code M error_code;
          it = Problem (message_cnt s) e add_data
      in s\<lparr>error_log_file := fprintf it (error_log_file s),
           main_log := fprintf it (main_log s),
           total_errors := total_errors s + 1,
           error_counter := (error_counter s)(unat e := error_counter s (unat e) + 1)\<rparr>)"

definition report_problem2 :: "messages_h \<Rightarrow> u32 \<Rightarrow> u32 \<Rightarrow> u32 \<Rightarrow> rte_msg_t \<Rightarrow> rte_msg_t" where
  "report_problem2 M error_code add_data add_data2 s =
     (let e = problem2_code M error_code;
          it = Problem2 (message_cnt s) e add_data add_data2
      in s\<lparr>error_log_file := fprintf it (error_log_file s),
           main_log := fprintf it (main_log s),
           total_errors := total_errors s + 1,
           error_counter := (error_counter s)(unat e := error_counter s (unat e) + 1)\<rparr>)"

text \<open>
  The assembled message is an array of 32-bit words that the program also reads and
  writes byte by byte; the target is little-endian.
\<close>

definition get_byte :: "u32 list \<Rightarrow> nat \<Rightarrow> u8" where
  "get_byte m k = ucast (drop_bit (8 * (k mod 4)) (m ! (k div 4)))"

definition set_byte :: "u32 list \<Rightarrow> nat \<Rightarrow> u8 \<Rightarrow> u32 list" where
  "set_byte m k b =
     m[k div 4 := (m ! (k div 4) AND NOT (push_bit (8 * (k mod 4)) 0xFF))
                    OR push_bit (8 * (k mod 4)) (ucast b)]"

definition hex_dump_current_message :: "bool \<Rightarrow> rte_msg_t \<Rightarrow> rte_msg_t" where
  "hex_dump_current_message print_words s =
     (if asm_words s = 0 then s
      else if print_words
        then s\<lparr>main_log := fprintf (HexDumpWords (fmt_id s)
                  (take (unat (asm_words s)) (assembled_msg s))) (main_log s)\<rparr>
        else s\<lparr>main_log := fprintf (HexDumpBytes (fmt_id s)
                  (map (get_byte (assembled_msg s)) [0..<unat (asm_words s * 4)]))
                  (main_log s)\<rparr>)"

section \<open>Finishing an assembled message (decoder.c)\<close>

definition prepare_message_msgx :: "messages_h \<Rightarrow> rte_msg_t \<Rightarrow> bool \<times> rte_msg_t" where
  "prepare_message_msgx M s =
     (if asm_size s = 0 then (False, report_problem M (ERR_MSGX_SIZE_EMPTY M) 0 s)
      else
        let msg_size = drop_bit 24 (assembled_msg s ! unat (asm_words s - 1)) AND 0xFF in
        if msg_size > asm_size s - 1 then
          (False, hex_dump_current_message False
                    (report_problem2 M (ERR_MSGX_SIZE_TOO_LARGE M) msg_size (asm_size s - 1) s))
        else if msg_size < asm_size s - 4 then
          (False, hex_dump_current_message False
                    (report_problem2 M (ERR_MSGX_SIZE_TOO_SMALL M) msg_size (asm_size s - 4) s))
        else
          let last_word = assembled_msg s ! unat (asm_words s - 1) AND 0x00FFFFFF in
          if drop_bit (unat ((msg_size AND 3) * 8)) last_word \<noteq> 0 then
            (False, hex_dump_current_message False
                      (report_problem M (ERR_MSGX_CORRUPTED M) 0 s))
          else
            (True, s\<lparr>asm_size := msg_size,
                     assembled_msg :=
                       set_byte (set_byte (set_byte (set_byte (assembled_msg s)
                         (unat msg_size) 0) (unat msg_size + 1) 0) (unat msg_size + 2) 0)
                         (unat msg_size + 3) 0\<rparr>))"

definition prepare_msg_and_check_it ::
  "messages_h \<Rightarrow> msg_type_t \<Rightarrow> u32 \<Rightarrow> rte_msg_t \<Rightarrow> bool \<times> rte_msg_t" where
  "prepare_msg_and_check_it M ty msk s =
     (let s1 = s\<lparr>asm_size := 4 * asm_words s,
                 assembled_msg := (assembled_msg s)[unat (asm_words s) := 0]\<rparr>
      in case ty of
           TYPE_EXT_MSG \<Rightarrow>
             (True, s1\<lparr>assembled_msg := (assembled_msg s1)
                           [unat (asm_words s1) := additional_data s1 AND msk,
                            unat (asm_words s1 + 1) := 0],
                       asm_size := asm_size s1 + 4,
                       fmt_id := fmt_id s1 AND NOT msk\<rparr>)
         | TYPE_MSGX \<Rightarrow> prepare_message_msgx M s1
         | _ \<Rightarrow> (True, s1))"

text \<open>
  The buffer for the assembled message is allocated in main.c with room for
  \<open>4 * (1 + max_msg_blocks)\<close> words and 20 bytes more; the assembly stops before the
  message outgrows it.
\<close>

definition asm_buffer_ok :: "rte_msg_t \<Rightarrow> bool" where
  "asm_buffer_ok s \<longleftrightarrow>
     length (assembled_msg s) = 4 * (1 + unat (max_msg_blocks (hdr_data s))) + 5
     \<and> unat (asm_words s) < length (assembled_msg s)"

text \<open>
  The rule for \<open>MSGX\<close> messages in the words of the specification: the logged size is
  the last byte of the last data word; it must lie between \<open>4 * words - 4\<close> and
  \<open>4 * words - 1\<close>, and the bytes of the last word between the end of the message and
  the size byte must be zero. \<open>msgx_diagnostic\<close> is the report that a violation of the
  rule is expected to produce.
\<close>

definition msgx_logged_size :: "rte_msg_t \<Rightarrow> nat" where
  "msgx_logged_size s = unat (get_byte (assembled_msg s) (4 * unat (asm_words s) - 1))"

definition msgx_size_ok :: "rte_msg_t \<Rightarrow> bool" where
  "msgx_size_ok s \<longleftrightarrow>
     msgx_logged_size s \<le> 4 * unat (asm_words s) - 1
     \<and> 4 * unat (asm_words s) - 4 \<le> msgx_logged_size s
     \<and> (\<forall>k \<in> {msgx_logged_size s ..< 4 * unat (asm_words s) - 1}.
           get_byte (assembled_msg s) k = 0)"

definition msgx_diagnostic :: "messages_h \<Rightarrow> rte_msg_t \<Rightarrow> out_item" where
  "msgx_diagnostic M s =
     (if 4 * unat (asm_words s) - 1 < msgx_logged_size s then
        Problem2 (message_cnt s) (problem2_code M (ERR_MSGX_SIZE_TOO_LARGE M))
          (of_nat (msgx_logged_size s)) (of_nat (4 * unat (asm_words s) - 1))
      else if msgx_logged_size s < 4 * unat (asm_words s) - 4 then
        Problem2 (message_cnt s) (problem2_code M (ERR_MSGX_SIZE_TOO_SMALL M))
          (of_nat (msgx_logged_size s)) (of_nat (4 * unat (asm_words s) - 4))
      else Problem (message_cnt s) (problem_code M (ERR_MSGX_CORRUPTED M)) 0)"

section \<open>Indexed text (print_message.c)\<close>

text \<open>
  An indexed text is a byte blob in memory: for every option one length byte and the
  characters, and a zero byte at the end. The functions walk it with a pointer, which is
  an offset here. A read outside the blob is an invalid memory access: \<open>peek\<close> yields
  \<open>None\<close> there, and so does every function that reads through it.
\<close>

definition peek :: "u8 list \<Rightarrow> nat \<Rightarrow> u8 option" where
  "peek mem p = (if p < length mem then Some (mem ! p) else None)"

text \<open>
  The loop of \<open>copy_selected_text\<close>: \<open>pos\<close> is the pointer \<open>y_text\<close>, the last argument
  counts the rounds that are left of the \<open>index\<close> rounds.
\<close>

fun skip_texts :: "u8 list \<Rightarrow> nat \<Rightarrow> nat \<Rightarrow> nat \<Rightarrow> (nat \<times> nat) option" where
  "skip_texts mem pos text_length 0 = Some (pos, text_length)"
| "skip_texts mem pos text_length (Suc i) =
     (case peek mem (pos + (1 + text_length)) of
        None \<Rightarrow> None
      | Some b \<Rightarrow>
          if b = 0 then Some (pos, text_length)
          else (case peek mem (pos + (text_length + 1)) of
                  None \<Rightarrow> None
                | Some len \<Rightarrow> skip_texts mem (pos + (text_length + 1)) (unat len) i))"

text \<open>
  \<open>strncpy\<close> followed by the terminating zero: the resulting C string consists of the
  source bytes up to a zero byte, \<open>n\<close> at most.
\<close>

fun strncpy_string :: "u8 list \<Rightarrow> nat \<Rightarrow> nat \<Rightarrow> u8 list option" where
  "strncpy_string mem p 0 = Some []"
| "strncpy_string mem p (Suc n) =
     (case peek mem p of
        None \<Rightarrow> None
      | Some b \<Rightarrow> if b = 0 then Some []
                  else map_option ((#) b) (strncpy_string mem (Suc p) n))"

definition bytes_of :: "string \<Rightarrow> u8 list" where
  "bytes_of cs = map (\<lambda>c. of_nat (of_char c)) cs"

definition TXT_UNDEFINED_TEXT :: "u8 list" where
  "TXT_UNDEFINED_TEXT = bytes_of ''<undefined text>''"

text \<open>
  \<open>copy_selected_text\<close> yields the text that its result points to and the string left in
  \<open>txt_buffer\<close>.
\<close>

definition copy_selected_text :: "u8 list option \<Rightarrow> u32 \<Rightarrow> (u8 list \<times> u8 list) option" where
  "copy_selected_text y_text idx =
     (case y_text of
        None \<Rightarrow> Some (TXT_UNDEFINED_TEXT, [])
      | Some mem \<Rightarrow>
          (case peek mem 0 of
             None \<Rightarrow> None
           | Some b \<Rightarrow>
               if b = 0 then Some (TXT_UNDEFINED_TEXT, [])
               else (case skip_texts mem 0 (unat b) (unat idx) of
                       None \<Rightarrow> None
                     | Some (pos, text_length) \<Rightarrow>
                         if text_length > 0 then
                           (case strncpy_string mem (pos + 1) text_length of
                              None \<Rightarrow> None
                            | Some txt \<Rightarrow> Some (txt, txt))
                         else Some (TXT_UNDEFINED_TEXT, []))))"

text \<open>
  \<open>get_selected_text\<close> returns its static buffer whatever happens; \<open>txt_buffer\<close> is the
  string the buffer holds before the call. An entry whose type announces an indexed
  text while the union holds something else cannot be read.
\<close>

definition get_selected_text ::
  "messages_h \<Rightarrow> rte_enum_t \<Rightarrow> u32 \<Rightarrow> u8 list \<Rightarrow> rte_msg_t \<Rightarrow> (u8 list \<times> rte_msg_t) option" where
  "get_selected_text M in_file_idx idx txt_buffer s =
     (if unat in_file_idx < MAX_ENUMS then
        (if type (enums s (unat in_file_idx)) = Y_TEXT_TYPE
            \<or> type (enums s (unat in_file_idx)) = IN_FILE_TYPE then
           (case payload (enums s (unat in_file_idx)) of
              in_file_txt None \<Rightarrow>
                Some (txt_buffer,
                      save_internal_decoding_error M INT_DECODE_Y_TYPE_STRING_NULL 0 s)
            | in_file_txt (Some mem) \<Rightarrow>
                (case copy_selected_text (Some mem) idx of
                   None \<Rightarrow> None
                 | Some (_, buf) \<Rightarrow> Some (buf, s))
            | _ \<Rightarrow> None)
         else Some (txt_buffer,
                    save_internal_decoding_error M INT_DECODE_Y_TYPE_STRING
                      (case type (enums s (unat in_file_idx)) of
                         FILTER_TYPE \<Rightarrow> 0 | OUT_FILE_TYPE \<Rightarrow> 1 | IN_FILE_TYPE \<Rightarrow> 2
                       | Y_TEXT_TYPE \<Rightarrow> 3 | MEMO_TYPE \<Rightarrow> 4) s))
      else Some (txt_buffer, s))"

text \<open>
  The blob that \<open>parse_indexed_text\<close> builds for \<open>{opt1|opt2|...}\<close>, and the options it
  accepts: one to 255 characters each, none of them a zero byte.
\<close>

fun indexed_text :: "u8 list list \<Rightarrow> u8 list" where
  "indexed_text [] = [0]"
| "indexed_text (opt # opts) = of_nat (length opt) # opt @ indexed_text opts"

definition option_ok :: "u8 list \<Rightarrow> bool" where
  "option_ok opt \<longleftrightarrow> 1 \<le> length opt \<and> length opt \<le> 255 \<and> 0 \<notin> set opt"

section \<open>Example data\<close>

text \<open>
  The state of the program at start: \<open>g_msg\<close> and \<open>g_fmt\<close> have static storage and are
  zero-initialised. The buffers that the program allocates later are empty here.
\<close>

definition enum_zero :: enum_data_t where
  "enum_zero = \<lparr>name = None, type = FILTER_TYPE, payload = filter_description None\<rparr>"

definition error_log_zero :: error_log_t where
  "error_log_zero = \<lparr>error_number = 0, value_number = 0, data1 = 0, data2 = 0, fmt_text = None\<rparr>"

definition msg_data_zero :: msg_data_t where
  "msg_data_zero = \<lparr>message_name = None, msg_type = TYPE_MSG0_8, ext_data_mask = 0,
     msg_len = 0, counter = 0, format = []\<rparr>"

definition g_msg_init :: rte_msg_t where
  "g_msg_init = \<lparr>
     main_log = None, error_log_file = None,
     param = \<lparr>max_positive_tstamp_diff = 0, max_negative_tstamp_diff = 0\<rparr>,
     hdr_data = \<lparr>topmost_fmt_id = 0, long_timestamp_used = False, max_msg_blocks = 0,
       fmt_id_bits = 0, fmt_id_shift = 0, timestamp_and_index_mask = 0\<rparr>,
     timestamp = \<lparr>h = 0, l = 0, old = 0, searched_to_index = 0,
       msg_long_tstamp_incremented = 0, mark_problematic_tstamps = False,
       no_previous_tstamp = False\<rparr>,
     fmt_id = 0, additional_data = 0, asm_words = 0, asm_size = 0, assembled_msg = [],
     value = \<lparr>data_double = 0, data_i64 = 0, data_u64 = 0\<rparr>,
     print_nl_to_main_log = False,
     index = 0, message_cnt = 0, in_size = 0, rte_buffer = [], raw_data = [],
     enums = (\<lambda>_. enum_zero),
     fmt_ids_defined = 0, fmt_align_value = 0, unfinished_words = 0, bad_packet_words = 0,
     error_log = (\<lambda>_. error_log_zero), msg_error_counter = 0, error_value_no = 0,
     total_errors = 0, error_counter = (\<lambda>_. 0),
     g_fmt = (\<lambda>_. None), plans = (\<lambda>_. msg_data_zero)\<rparr>"

text \<open>An example numbering of the error codes, in the decoding band 100..199.\<close>

definition example_messages :: messages_h where
  "example_messages = \<lparr>
     ERR_DECODE_UNKNOWN_ERROR = 100, ERR_INTERNAL_ERROR = 101,
     ERR_DECODE_VALUE_SIZE_TOO_LARGE = 110, ERR_DECODE_VALUE_NOT_IN_MESSAGE = 111,
     ERR_MSGX_SIZE_EMPTY = 120, ERR_MSGX_SIZE_TOO_LARGE = 121, ERR_MSGX_SIZE_TOO_SMALL = 122,
     ERR_MSGX_CORRUPTED = 123, ERR_MESSAGE_TOO_LONG = 124, FATAL_LAST = 60,
     TOTAL_ERRORS = 300\<rparr>"

definition memo_example :: rte_msg_t where
  "memo_example = g_msg_init\<lparr>
     enums := (\<lambda>_. enum_zero)(40 := \<lparr>name = Some ''M_SPEED'', type = MEMO_TYPE,
                                       payload = memo_value 0\<rparr>),
     value := \<lparr>data_double = 7, data_i64 = 7, data_u64 = 7\<rparr>\<rparr>"

text \<open>
  The default windows: \<open>DEFAULT_POSITIVE_TIMESTAMP_DIFF\<close> is 0.33 of the period and
  \<open>DEFAULT_NEGATIVE_TIMESTAMP_DIFF\<close> is -0.10 of it, both truncated to integers.
\<close>

definition default_param :: param_t where
  "default_param = \<lparr>max_positive_tstamp_diff = 1417339207,
                     max_negative_tstamp_diff = - 429496729\<rparr>"

text \<open>
  A decoder that has just been started for a trace with 9 format ID bits and no long
  timestamps: \<open>reset_statistics\<close> has marked the previous timestamp as not valid.
  The current message has the user format ID 16.
\<close>

definition fresh_decoder :: rte_msg_t where
  "fresh_decoder = g_msg_init\<lparr>
     param := default_param,
     hdr_data := (hdr_data g_msg_init)\<lparr>topmost_fmt_id := 510, fmt_id_bits := 9,
                    fmt_id_shift := 23\<rparr>,
     timestamp := (timestamp g_msg_init)\<lparr>no_previous_tstamp := True\<rparr>,
     fmt_id := 16\<rparr>"

definition after_first_message :: rte_msg_t where
  "after_first_message = snd (prepare_timestamp_value (message_arrives 0xFFFF0000 fresh_decoder))"

definition after_second_message :: rte_msg_t where
  "after_second_message =
     snd (prepare_timestamp_value (message_arrives 0x00010000 after_first_message))"

text \<open>The same two messages when they are the tenth and the eleventh of the trace.\<close>

definition tenth_message :: rte_msg_t where
  "tenth_message = fresh_decoder\<lparr>
     timestamp := (timestamp fresh_decoder)\<lparr>old := 0xFFFF0000, l := 0x00010000,
                                             no_previous_tstamp := False\<rparr>,
     message_cnt := 11\<rparr>"

text \<open>A message that is 500 ticks behind its predecessor.\<close>

definition late_message :: rte_msg_t where
  "late_message = fresh_decoder\<lparr>
     timestamp := (timestamp fresh_decoder)\<lparr>old := 1000, l := 500,
                                             no_previous_tstamp := False\<rparr>,
     message_cnt := 5\<rparr>"

definition late_message_after_error :: rte_msg_t where
  "late_message_after_error = late_message\<lparr>
     timestamp := (timestamp late_message)\<lparr>no_previous_tstamp := True\<rparr>\<rparr>"

text \<open>
  An \<open>MSGX\<close> message of two data words that carries the five bytes of \<open>hello\<close>: the
  last byte of the second word is the size. In the second example one of the padding
  bytes is not zero. The buffer is the one allocated for \<open>max_msg_blocks = 1\<close>.
\<close>

definition msgx_hello :: rte_msg_t where
  "msgx_hello = g_msg_init\<lparr>
     main_log := Some [], error_log_file := Some [],
     hdr_data := (hdr_data g_msg_init)\<lparr>max_msg_blocks := 1\<rparr>,
     fmt_id := 32, asm_words := 2, message_cnt := 1,
     assembled_msg := [0x6C6C6568, 0x0500006F, 0, 0, 0, 0, 0, 0, 0, 0, 0, 0, 0]\<rparr>"

definition msgx_corrupted :: rte_msg_t where
  "msgx_corrupted = msgx_hello\<lparr>
     assembled_msg := [0x6C6C6568, 0x0500016F, 0, 0, 0, 0, 0, 0, 0, 0, 0, 0, 0]\<rparr>"

text \<open>The inline list \<open>{ok|warn|err}\<close>, stored as entry 50 of the enum table.\<close>

definition status_texts :: "u8 list list" where
  "status_texts = [bytes_of ''ok'', bytes_of ''warn'', bytes_of ''err'']"

definition y_text_example :: rte_msg_t where
  "y_text_example = g_msg_init\<lparr>
     enums := (\<lambda>_. enum_zero)(50 := \<lparr>name = Some ''#Y_TEXT'', type = Y_TEXT_TYPE,
                 payload = in_file_txt (Some (indexed_text status_texts))\<rparr>)\<rparr>"

section \<open>Memo stores touch memo entries only\<close>

lemma save_decoding_error_enums [simp]:
  "enums (save_decoding_error M e d1 d2 t s) = enums s"
  by (simp add: save_decoding_error_def Let_def)

lemma save_decoding_error_total [simp]:
  "total_errors (save_decoding_error M e d1 d2 t s) = total_errors s + 1"
  by (simp add: save_decoding_error_def Let_def)

lemma save_decoding_error_counter:
  "error_counter (save_decoding_error M e d1 d2 t s) =
     (error_counter s)(unat (normalize_err_no M e) :=
        error_counter s (unat (normalize_err_no M e)) + 1)"
  by (simp add: save_decoding_error_def Let_def)

lemma save_decoding_error_stored:
  "unat (msg_error_counter s) < MAX_ERRORS_IN_SINGLE_MESSAGE \<Longrightarrow>
   error_log (save_decoding_error M e d1 d2 t s) =
     (error_log s)(unat (msg_error_counter s) :=
        \<lparr>error_number = normalize_err_no M e, value_number = error_value_no s,
         data1 = d1, data2 = d2, fmt_text = t\<rparr>)
   \<and> msg_error_counter (save_decoding_error M e d1 d2 t s) = msg_error_counter s + 1"
  by (simp add: save_decoding_error_def Let_def)

lemma save_decoding_error_dropped:
  "MAX_ERRORS_IN_SINGLE_MESSAGE \<le> unat (msg_error_counter s) \<Longrightarrow>
   error_log (save_decoding_error M e d1 d2 t s) = error_log s
   \<and> msg_error_counter (save_decoding_error M e d1 d2 t s) = msg_error_counter s"
  by (simp add: save_decoding_error_def Let_def)

text \<open>
  C10. A memo store changes the enum table only at entry \<open>memo\<close>, only in its payload
  (which becomes the current double value), and only when the index lies in
  \<open>[32, MAX_ENUMS)\<close> and the entry is a memo; nothing else of the state changes then.
  In every other case the enum table stays as it was and an internal error is recorded:
  the totals are bumped for \<open>ERR_INTERNAL_ERROR\<close>, and while the per-message log has
  room the error is stored with the internal error number and the offending index.
\<close>

theorem save_to_memo_touches_memo_only:
  "(NUMBER_OF_FILTER_BITS \<le> unat memo \<and> unat memo < MAX_ENUMS
      \<and> type (enums s (unat memo)) = MEMO_TYPE \<longrightarrow>
      save_to_memo M memo s =
        s\<lparr>enums := (enums s)(unat memo :=
             (enums s (unat memo))\<lparr>payload := memo_value (data_double (value s))\<rparr>)\<rparr>
      \<and> (\<forall>i. i \<noteq> unat memo \<longrightarrow> enums (save_to_memo M memo s) i = enums s i)
      \<and> name (enums (save_to_memo M memo s) (unat memo)) = name (enums s (unat memo))
      \<and> type (enums (save_to_memo M memo s) (unat memo)) = MEMO_TYPE)
   \<and> (\<not> (NUMBER_OF_FILTER_BITS \<le> unat memo \<and> unat memo < MAX_ENUMS
           \<and> type (enums s (unat memo)) = MEMO_TYPE) \<longrightarrow>
      enums (save_to_memo M memo s) = enums s
      \<and> total_errors (save_to_memo M memo s) = total_errors s + 1
      \<and> error_counter (save_to_memo M memo s) =
          (error_counter s)(unat (normalize_err_no M (ERR_INTERNAL_ERROR M)) :=
             error_counter s (unat (normalize_err_no M (ERR_INTERNAL_ERROR M))) + 1)
      \<and> (unat (msg_error_counter s) < MAX_ERRORS_IN_SINGLE_MESSAGE \<longrightarrow>
           error_log (save_to_memo M memo s) (unat (msg_error_counter s)) =
             \<lparr>error_number = normalize_err_no M (ERR_INTERNAL_ERROR M),
              value_number = error_value_no s,
              data1 = (if NUMBER_OF_FILTER_BITS \<le> unat memo \<and> unat memo < MAX_ENUMS
                       then INT_SET_MEMO_TYPE_IS_NOT_MEMO else INT_SET_MEMO_OUT_OF_RANGE),
              data2 = ucast memo, fmt_text = Some []\<rparr>))"
proof (intro conjI impI)
  assume ok: "NUMBER_OF_FILTER_BITS \<le> unat memo \<and> unat memo < MAX_ENUMS
      \<and> type (enums s (unat memo)) = MEMO_TYPE"
  then show "save_to_memo M memo s =
        s\<lparr>enums := (enums s)(unat memo :=
             (enums s (unat memo))\<lparr>payload := memo_value (data_double (value s))\<rparr>)\<rparr>"
    by (simp add: save_to_memo_def)
  from ok show "\<forall>i. i \<noteq> unat memo \<longrightarrow> enums (save_to_memo M memo s) i = enums s i"
    by (simp add: save_to_memo_def)
  from ok show "name (enums (save_to_memo M memo s) (unat memo)) = name (enums s (unat memo))"
    by (simp add: save_to_memo_def)
  from ok show "type (enums (save_to_memo M memo s) (unat memo)) = MEMO_TYPE"
    by (simp add: save_to_memo_def)
next
  assume bad: "\<not> (NUMBER_OF_FILTER_BITS \<le> unat memo \<and> unat memo < MAX_ENUMS
           \<and> type (enums s (unat memo)) = MEMO_TYPE)"
  then show "enums (save_to_memo M memo s) = enums s"
    by (auto simp: save_to_memo_def save_internal_decoding_error_def)
  from bad show "total_errors (save_to_memo M memo s) = total_errors s + 1"
    by (auto simp: save_to_memo_def save_internal_decoding_error_def)
  from bad show "error_counter (save_to_memo M memo s) =
          (error_counter s)(unat (normalize_err_no M (ERR_INTERNAL_ERROR M)) :=
             error_counter s (unat (normalize_err_no M (ERR_INTERNAL_ERROR M))) + 1)"
    by (auto simp: save_to_memo_def save_internal_decoding_error_def
          save_decoding_error_counter)
next
  assume bad: "\<not> (NUMBER_OF_FILTER_BITS \<le> unat memo \<and> unat memo < MAX_ENUMS
           \<and> type (enums s (unat memo)) = MEMO_TYPE)"
    and room: "unat (msg_error_counter s) < MAX_ERRORS_IN_SINGLE_MESSAGE"
  then show "error_log (save_to_memo M memo s) (unat (msg_error_counter s)) =
             \<lparr>error_number = normalize_err_no M (ERR_INTERNAL_ERROR M),
              value_number = error_value_no s,
              data1 = (if NUMBER_OF_FILTER_BITS \<le> unat memo \<and> unat memo < MAX_ENUMS
                       then INT_SET_MEMO_TYPE_IS_NOT_MEMO else INT_SET_MEMO_OUT_OF_RANGE),
              data2 = ucast memo, fmt_text = Some []\<rparr>"
    by (auto simp: save_to_memo_def save_internal_decoding_error_def
          save_decoding_error_stored)
qed

theorem save_to_memo_touches_memo_only_witness:
  "payload (enums (save_to_memo example_messages 40 memo_example) 40) = memo_value 7
   \<and> enums (save_to_memo example_messages 7 memo_example) = enums memo_example
   \<and> total_errors (save_to_memo example_messages 7 memo_example) = 1
   \<and> error_log (save_to_memo example_messages 41 memo_example) 0 =
       \<lparr>error_number = 101, value_number = 0, data1 = 3, data2 = 41, fmt_text = Some []\<rparr>"
  using save_to_memo_touches_memo_only [of 40 memo_example example_messages]
    save_to_memo_touches_memo_only [of 7 memo_example example_messages]
    save_to_memo_touches_memo_only [of 41 memo_example example_messages]
  by (simp add: memo_example_def g_msg_init_def example_messages_def enum_zero_def
        NUMBER_OF_FILTER_BITS_def MAX_ENUMS_def MAX_ERRORS_IN_SINGLE_MESSAGE_def
        normalize_err_no_def FIRST_ERROR_def ERR_PARSE_UNKNOWN_def
        INT_SET_MEMO_TYPE_IS_NOT_MEMO_def INT_SET_MEMO_OUT_OF_RANGE_def)


section \<open>Timestamp reconstruction\<close>

lemma s64_id: "- (2 ^ 63) \<le> x \<Longrightarrow> x < 2 ^ 63 \<Longrightarrow> s64 x = x"
proof -
  assume a: "- (2 ^ 63) \<le> x" "x < 2 ^ 63"
  have "(x + 2 ^ 63) mod 2 ^ 64 = x + 2 ^ 63"
    by (rule mod_pos_pos_trivial) (use a in simp_all)
  then show ?thesis by (simp add: s64_def)
qed

lemmas timestamp_example_defs =
  fresh_decoder_def g_msg_init_def default_param_def message_arrives_def
  prepare_timestamp_value_def process_timestamp_value_def long_timestamp_found_def
  full_timestamp_def MSG1_SYS_LONG_TIMESTAMP_def MSG1_SYS_STREAMING_MODE_LOGGING_def
  NORMALIZED_TSTAMP_PERIOD_def s64_def Let_def

lemma after_first_message_eq:
  "after_first_message = fresh_decoder\<lparr>
     timestamp := (timestamp fresh_decoder)\<lparr>l := 0xFFFF0000, old := 0xFFFF0000,
                                             no_previous_tstamp := False\<rparr>,
     message_cnt := 1\<rparr>"
  by (simp add: after_first_message_def timestamp_example_defs)

text \<open>
  C8, as the code has it. A message that is behind its predecessor by no more than the
  negative window is accepted and, when the previous timestamp is valid
  (\<open>no_previous_tstamp\<close> is not set), the reconstruction step changes nothing at all:
  neither \<open>timestamp.old\<close> nor \<open>timestamp.h\<close> nor the prepared 64-bit value. The check
  used by the forward scan, \<open>small_tstamp_difference\<close>, accepts such a message too and
  leaves its previous low part and its overflow counter as they were.
\<close>

theorem out_of_order_message_keeps_old_timestamp:
  assumes "\<not> no_previous_tstamp (timestamp s)"
    and "max_negative_tstamp_diff (param s) \<le> uint (l (timestamp s)) - uint (old (timestamp s))"
    and "uint (l (timestamp s)) - uint (old (timestamp s)) < 0"
  shows "process_timestamp_value ts s = (ts, s)
    \<and> small_tstamp_difference s hc (old (timestamp s)) (l (timestamp s))
        = (True, hc, old (timestamp s))"
  using assms
  by (simp add: process_timestamp_value_def small_tstamp_difference_def Let_def)

theorem out_of_order_message_keeps_old_timestamp_witness:
  "process_timestamp_value 77 late_message = (77, late_message)
   \<and> old (timestamp late_message) = 1000 \<and> l (timestamp late_message) = 500
   \<and> small_tstamp_difference late_message 3 1000 500 = (True, 3, 1000)"
  using out_of_order_message_keeps_old_timestamp [of late_message 77 3]
  by (simp add: late_message_def fresh_decoder_def g_msg_init_def default_param_def)

text \<open>
  The claim as stated fails when the previous timestamp is not valid, as after a message
  with a decoding error: the late message then replaces \<open>timestamp.old\<close>.
\<close>

theorem out_of_order_message_counterexample:
  "max_negative_tstamp_diff (param late_message_after_error)
     \<le> uint (l (timestamp late_message_after_error))
       - uint (old (timestamp late_message_after_error))
   \<and> uint (l (timestamp late_message_after_error))
       - uint (old (timestamp late_message_after_error)) < 0
   \<and> old (timestamp late_message_after_error) = 1000
   \<and> old (timestamp (snd (process_timestamp_value 77 late_message_after_error))) = 500"
  by (simp add: late_message_after_error_def late_message_def timestamp_example_defs)

text \<open>
  C2, as the code has it. The previous timestamp is valid, the previous low part lies in
  the top half of the period and the difference is at most \<open>-(PERIOD - MAX_POS)\<close>. Then
  the message is a wrap-around: \<open>timestamp.old\<close> becomes the new low part, and the high
  word is incremented, with the message number remembered, exactly when at least four
  messages have been counted since the last increment; otherwise the high word stays.
  The prepared 64-bit value is built from the resulting high word. For the two messages
  \<open>0xFFFF0000\<close> and \<open>0x00010000\<close> this means one increment when four messages have
  been counted, and none when they are the first two messages of a trace.
\<close>

theorem wrap_around_increments_high_word:
  assumes np: "\<not> no_previous_tstamp (timestamp s)"
    and ok: "ts_params_ok (param s)"
    and top: "NORMALIZED_TSTAMP_PERIOD div 2 \<le> uint (old (timestamp s))"
    and d: "uint (l (timestamp s)) - uint (old (timestamp s))
            \<le> - (NORMALIZED_TSTAMP_PERIOD - max_positive_tstamp_diff (param s))"
  shows "process_timestamp_value ts s =
     (if message_cnt s - msg_long_tstamp_incremented (timestamp s) \<ge> 4
      then (push_bit 32 (ucast (h (timestamp s) + 1)) OR ucast (l (timestamp s)),
            s\<lparr>timestamp := (timestamp s)
                \<lparr>msg_long_tstamp_incremented := message_cnt s,
                 h := h (timestamp s) + 1, old := l (timestamp s)\<rparr>\<rparr>)
      else (push_bit 32 (ucast (h (timestamp s))) OR ucast (l (timestamp s)),
            s\<lparr>timestamp := (timestamp s)\<lparr>old := l (timestamp s)\<rparr>\<rparr>))"
proof -
  let ?mp = "max_positive_tstamp_diff (param s)"
  let ?mn = "max_negative_tstamp_diff (param s)"
  let ?d = "uint (l (timestamp s)) - uint (old (timestamp s))"
  from ok have p: "0 < ?mp" "?mn < 0" "?mp - ?mn < 2 ^ 32"
    by (simp_all add: ts_params_ok_def NORMALIZED_TSTAMP_PERIOD_def)
  have s1: "s64 (4294967296 - ?mp) = 4294967296 - ?mp"
    using p by (simp add: s64_id)
  have s2: "s64 (?mp - 4294967296) = ?mp - 4294967296"
    using p by (simp add: s64_id)
  from d p have neg: "?d < 0" "\<not> ?mn \<le> ?d" by (simp_all add: NORMALIZED_TSTAMP_PERIOD_def)
  show ?thesis
    using np top d neg
    by (simp add: process_timestamp_value_def full_timestamp_def Let_def s1 s2
          NORMALIZED_TSTAMP_PERIOD_def)
qed

theorem wrap_around_increments_high_word_witness:
  "h (timestamp tenth_message) = 0
   \<and> h (timestamp (snd (process_timestamp_value 0 tenth_message))) = 1
   \<and> old (timestamp (snd (process_timestamp_value 0 tenth_message))) = 0x00010000
   \<and> fst (process_timestamp_value 0 tenth_message) = 0x100010000
   \<and> h (timestamp (snd (process_timestamp_value 0 (tenth_message\<lparr>message_cnt := 3\<rparr>)))) = 0"
  using wrap_around_increments_high_word [of tenth_message 0]
    wrap_around_increments_high_word [of "tenth_message\<lparr>message_cnt := 3\<rparr>" 0]
  by (simp add: tenth_message_def fresh_decoder_def g_msg_init_def default_param_def
        ts_params_ok_def NORMALIZED_TSTAMP_PERIOD_def)

text \<open>
  The scenario of the claim on a decoder that has just been started: the second message
  satisfies the wrap-around condition, yet the high word is not incremented, because
  fewer than four messages have been counted.
\<close>

theorem wrap_around_counterexample:
  "old (timestamp after_first_message) = 0xFFFF0000
   \<and> \<not> no_previous_tstamp (timestamp after_first_message)
   \<and> NORMALIZED_TSTAMP_PERIOD div 2 \<le> uint (old (timestamp after_first_message))
   \<and> uint (0x00010000 :: u32) - uint (old (timestamp after_first_message))
       \<le> - (NORMALIZED_TSTAMP_PERIOD - max_positive_tstamp_diff (param after_first_message))
   \<and> h (timestamp fresh_decoder) = 0
   \<and> h (timestamp after_first_message) = 0
   \<and> h (timestamp after_second_message) = 0
   \<and> old (timestamp after_second_message) = 0x00010000"
  by (simp add: after_second_message_def after_first_message_eq timestamp_example_defs)


section \<open>The size rule of MSGX messages\<close>

lemma word_zero_bits: "(x :: 'a::len word) = 0 \<longleftrightarrow> (\<forall>n. \<not> bit x n)"
proof -
  have "(\<forall>n<LENGTH('a). \<not> bit x n) = (\<forall>n. \<not> bit x n)"
    using bit_imp_le_length [of x] by (meson not_le_imp_less)
  then show ?thesis by (simp add: bit_eq_iff)
qed

lemma u32_FF: "(0xFF :: u32) = mask 8"
  by (simp add: mask_eq_decr_exp)

lemma u32_FFFFFF: "(0x00FFFFFF :: u32) = mask 24"
  by (simp add: mask_eq_decr_exp)

lemma unat_ucast_u8_u32: "unat (ucast b :: u32) = unat b" for b :: u8
proof -
  have "unat b < 2 ^ 8" using unsigned_less [of b, where 'a = nat] by simp
  then have "unat b < 2 ^ 32" by simp
  then show ?thesis by (simp add: unsigned_ucast_eq take_bit_nat_eq_self)
qed

lemma size_byte: "drop_bit 24 (x::u32) AND 0xFF = ucast (ucast (drop_bit 24 x) :: u8)"
  unfolding u32_FF by (auto simp add: bit_eq_iff bit_simps)

lemma four_w_minus_1: "0 < w \<Longrightarrow> (4 * w - 1) div 4 = w - 1 \<and> (4 * w - 1) mod 4 = (3::nat)"
proof -
  assume "0 < w"
  then have "4 * w - 1 = 3 + (w - 1) * 4" by simp
  then show ?thesis by (simp only: div_mult_self2 mod_mult_self2) simp
qed

lemma get_byte_last: "0 < w \<Longrightarrow> get_byte m (4 * w - 1) = ucast (drop_bit 24 (m ! (w - 1)))"
  using four_w_minus_1 [of w] by (simp add: get_byte_def)

lemma unat_4w:
  assumes "asm_buffer_ok s"
  shows "unat (asm_words s) < 2 ^ 30" "unat (4 * asm_words s) = 4 * unat (asm_words s)"
proof -
  have "unat (max_msg_blocks (hdr_data s)) < 2 ^ 16"
    using unsigned_less [of "max_msg_blocks (hdr_data s)", where 'a = nat] by simp
  with assms show a: "unat (asm_words s) < 2 ^ 30" by (simp add: asm_buffer_ok_def)
  then show "unat (4 * asm_words s) = 4 * unat (asm_words s)" by (simp add: unat_word_ariths)
qed

lemma get_byte_list_update: "k div 4 \<noteq> i \<Longrightarrow> get_byte (m[i := v]) k = get_byte m k"
  by (simp add: get_byte_def)

lemma byte_of_patched_word:
  assumes "a < 4" "b < 4" "a \<noteq> b"
  shows "(ucast (drop_bit (8 * a) ((w AND NOT (push_bit (8 * b) (mask 8))) OR push_bit (8 * b) (ucast (v::u8)))) :: u8)
         = ucast (drop_bit (8 * a) (w :: u32))"
proof (rule bit_word_eqI)
  fix n assume "n < LENGTH(8)"
  then have n: "n < 8" by simp
  from assms n have out: "\<not> (8 * b \<le> 8 * a + n \<and> 8 * a + n - 8 * b < 8)" by arith
  from assms n have in32: "8 * a + n < 32" by simp
  have v8: "bit v i \<Longrightarrow> i < 8" for i using bit_imp_le_length [of v i] by simp
  show "bit (ucast (drop_bit (8 * a) ((w AND NOT (push_bit (8 * b) (mask 8))) OR push_bit (8 * b) (ucast v))) :: u8) n
      = bit (ucast (drop_bit (8 * a) w) :: u8) n"
    using n out in32 by (auto simp add: bit_simps dest: v8)
qed

lemma get_byte_set_byte_other: "k \<noteq> k' \<Longrightarrow> get_byte (set_byte m k' b) k = get_byte m k"
proof -
  assume ne: "k \<noteq> k'"
  show ?thesis
  proof (cases "k div 4 = k' div 4 \<and> k' div 4 < length m")
    case True
    with ne have "k mod 4 \<noteq> k' mod 4" by (metis div_mult_mod_eq)
    then show ?thesis
      using True byte_of_patched_word [of "k mod 4" "k' mod 4" "m ! (k' div 4)" b]
      by (simp add: get_byte_def set_byte_def u32_FF)
  next
    case False
    then show ?thesis by (auto simp add: get_byte_def set_byte_def list_update_beyond)
  qed
qed

lemma padding_bits: "(drop_bit (8 * j) ((w::u32) AND 0x00FFFFFF) = 0) \<longleftrightarrow>
   (\<forall>n. 8 * j \<le> n \<and> n < 24 \<longrightarrow> \<not> bit w n)"
proof -
  have lt: "8 * j + n < 32" if "8 * j + n < 24" for n using that by simp
  have "(drop_bit (8 * j) (w AND mask 24) = 0) \<longleftrightarrow>
        (\<forall>n. \<not> (bit w (8 * j + n) \<and> 8 * j + n < 24))"
  proof -
    have "(\<forall>n. 8 * j + n < 32 \<longrightarrow> bit w (8 * j + n) \<longrightarrow> \<not> 8 * j + n < 24) =
          (\<forall>n. bit w (8 * j + n) \<longrightarrow> \<not> 8 * j + n < 24)"
      using lt by blast
    then show ?thesis
      unfolding word_zero_bits
      by (simp add: bit_drop_bit_eq bit_and_iff bit_mask_iff)
  qed
  also have "\<dots> \<longleftrightarrow> (\<forall>n. 8 * j \<le> n \<and> n < 24 \<longrightarrow> \<not> bit w n)"
  proof safe
    fix n assume "\<forall>n. \<not> (bit w (8 * j + n) \<and> 8 * j + n < 24)" "8 * j \<le> n" "n < 24" "bit w n"
    then show False using le_Suc_ex [of "8 * j" n] by auto
  next
    fix n assume "\<forall>n. 8 * j \<le> n \<and> n < 24 \<longrightarrow> \<not> bit w n" "bit w (8 * j + n)" "8 * j + n < 24"
    then show False using le_add1 [of "8 * j" n] by blast
  qed
  finally show ?thesis by (simp add: u32_FFFFFF)
qed

lemma byte_zero_bits: "((ucast (drop_bit (8 * k) (w::u32)) :: u8) = 0) \<longleftrightarrow>
   (\<forall>n. 8 * k \<le> n \<and> n < 8 * k + 8 \<longrightarrow> \<not> bit w n)"
proof -
  have "((ucast (drop_bit (8 * k) w) :: u8) = 0) \<longleftrightarrow> (\<forall>n. \<not> (n < 8 \<and> bit w (8 * k + n)))"
    unfolding word_zero_bits
    by (simp add: bit_ucast_iff bit_drop_bit_eq)
  also have "\<dots> \<longleftrightarrow> (\<forall>n. 8 * k \<le> n \<and> n < 8 * k + 8 \<longrightarrow> \<not> bit w n)"
  proof safe
    fix n assume "\<forall>n. \<not> (n < 8 \<and> bit w (8 * k + n))" "8 * k \<le> n" "n < 8 * k + 8" "bit w n"
    then show False using le_Suc_ex [of "8 * k" n] by auto
  next
    fix n assume "\<forall>n. 8 * k \<le> n \<and> n < 8 * k + 8 \<longrightarrow> \<not> bit w n" "n < 8" "bit w (8 * k + n)"
    then show False using le_add1 [of "8 * k" n] by (meson nat_add_left_cancel_less)
  qed
  finally show ?thesis .
qed

lemma padding_bytes: "(drop_bit (8 * j) ((w::u32) AND 0x00FFFFFF) = 0) \<longleftrightarrow>
   (\<forall>k. j \<le> k \<and> k < 3 \<longrightarrow> (ucast (drop_bit (8 * k) w) :: u8) = 0)"
  unfolding padding_bits byte_zero_bits
proof safe
  fix k n assume a: "\<forall>n. 8 * j \<le> n \<and> n < 24 \<longrightarrow> \<not> bit w n" "j \<le> k" "k < 3" "8 * k \<le> n" "n < 8 * k + 8" "bit w n"
  then have "8 * j \<le> n \<and> n < 24" by linarith
  with a show False by blast
next
  fix n assume a: "\<forall>k. j \<le> k \<and> k < 3 \<longrightarrow> (\<forall>n. 8 * k \<le> n \<and> n < 8 * k + 8 \<longrightarrow> \<not> bit w n)" "8 * j \<le> n" "n < 24" "bit w n"
  have "j \<le> n div 8 \<and> n div 8 < 3 \<and> 8 * (n div 8) \<le> n \<and> n < 8 * (n div 8) + 8"
    using a(2,3) by arith
  with a show False by blast
qed

text \<open>The padding condition of the code, read on the bytes of the message.\<close>

lemma padding_in_message:
  assumes w: "0 < w" and lo: "4 * w - 4 \<le> n" and hi: "n \<le> 4 * w - 1"
  shows "(drop_bit (8 * (n mod 4)) ((m ! (w - 1)) AND 0x00FFFFFF) = (0::u32)) \<longleftrightarrow>
         (\<forall>k \<in> {n ..< 4 * w - 1}. get_byte m k = 0)"
proof -
  define j where "j = n - 4 * (w - 1)"
  from w lo hi have j: "n = 4 * (w - 1) + j" "j < 4" unfolding j_def by linarith+
  then have nm: "n mod 4 = j" by simp
  have "(\<forall>k \<in> {n ..< 4 * w - 1}. get_byte m k = 0) \<longleftrightarrow>
        (\<forall>k'. j \<le> k' \<and> k' < 3 \<longrightarrow> get_byte m (4 * (w - 1) + k') = 0)"
  proof safe
    fix k' assume a: "\<forall>k \<in> {n ..< 4 * w - 1}. get_byte m k = 0" "j \<le> k'" "k' < 3"
    from a(2,3) j w have "4 * (w - 1) + k' \<in> {n ..< 4 * w - 1}"
      by (simp only: atLeastLessThan_iff) linarith
    with a show "get_byte m (4 * (w - 1) + k') = 0" by blast
  next
    fix k assume a: "\<forall>k'. j \<le> k' \<and> k' < 3 \<longrightarrow> get_byte m (4 * (w - 1) + k') = 0" "k \<in> {n ..< 4 * w - 1}"
    from a(2) j w have "j \<le> k - 4 * (w - 1) \<and> k - 4 * (w - 1) < 3"
      by (simp only: atLeastLessThan_iff) linarith
    moreover from a(2) j have "k = 4 * (w - 1) + (k - 4 * (w - 1))" by simp
    ultimately show "get_byte m k = 0" using a(1) by metis
  qed
  also have "\<dots> \<longleftrightarrow> (\<forall>k'. j \<le> k' \<and> k' < 3 \<longrightarrow> (ucast (drop_bit (8 * k') (m ! (w - 1))) :: u8) = 0)"
    by (auto simp add: get_byte_def)
  finally show ?thesis unfolding nm padding_bytes by simp
qed


lemma u32_sub_le: "unat (k::u32) \<le> unat x \<Longrightarrow> unat (x - k) = unat x - unat k"
  by (simp add: unat_sub word_le_nat_alt)

lemma u32_and3: "unat (x AND 3 :: u32) = unat x mod 4"
proof -
  have "x AND 3 = take_bit 2 x" by (simp add: take_bit_eq_mask mask_eq_decr_exp)
  then have "unat (x AND 3) = take_bit 2 (unat x)" by (simp only: unsigned_take_bit_eq)
  then show ?thesis by (simp add: take_bit_eq_mod)
qed

lemma u32_times8: "unat (y::u32) < 4 \<Longrightarrow> unat (y * 8) = 8 * unat y"
  by (simp add: unat_word_ariths)

lemma msgx_facts:
  assumes ok: "asm_buffer_ok s" and pos: "0 < asm_words s"
  defines "w \<equiv> unat (asm_words s)"
  defines "x \<equiv> drop_bit 24 ((assembled_msg s)[w := 0] ! unat (asm_words s - 1)) AND (0xFF :: u32)"
  shows "0 < w" "unat (asm_words s - 1) = w - 1"
    "4 * asm_words s \<noteq> 0"
    "unat x = msgx_logged_size s"
    "x > 4 * asm_words s - 1 \<longleftrightarrow> 4 * w - 1 < msgx_logged_size s"
    "x < 4 * asm_words s - 4 \<longleftrightarrow> msgx_logged_size s < 4 * w - 4"
    "unat ((x AND 3) * 8) = 8 * (msgx_logged_size s mod 4)"
    "(assembled_msg s)[w := 0] ! unat (asm_words s - 1) = assembled_msg s ! (w - 1)"
    "unat (4 * asm_words s) = 4 * w"
proof -
  from pos show w0: "0 < w" by (simp add: w_def word_greater_zero_iff unat_gt_0)
  have w30: "w < 2 ^ 30" and u4: "unat (4 * asm_words s) = 4 * w"
    using unat_4w [OF ok] by (simp_all add: w_def)
  show "unat (4 * asm_words s) = 4 * w" by (fact u4)
  from w0 show wm1: "unat (asm_words s - 1) = w - 1"
    using u32_sub_le [of 1 "asm_words s"] by (simp add: w_def)
  from w0 u4 show "4 * asm_words s \<noteq> 0" using unat_0_iff [of "4 * asm_words s"] by simp
  from w0 show rd: "(assembled_msg s)[w := 0] ! unat (asm_words s - 1) = assembled_msg s ! (w - 1)"
    by (simp add: wm1)
  show ux: "unat x = msgx_logged_size s"
    using w0 get_byte_last [of w "assembled_msg s"]
    by (simp add: x_def rd size_byte unat_ucast_u8_u32 msgx_logged_size_def w_def [symmetric])
  have m1: "unat (4 * asm_words s - 1) = 4 * w - 1"
    using w0 u4 u32_sub_le [of 1 "4 * asm_words s"] by simp
  have m4: "unat (4 * asm_words s - 4) = 4 * w - 4"
    using w0 u4 u32_sub_le [of 4 "4 * asm_words s"] by simp
  show "x > 4 * asm_words s - 1 \<longleftrightarrow> 4 * w - 1 < msgx_logged_size s"
    by (simp add: word_less_nat_alt ux m1)
  show "x < 4 * asm_words s - 4 \<longleftrightarrow> msgx_logged_size s < 4 * w - 4"
    by (simp add: word_less_nat_alt ux m4)
  have "unat (x AND 3) = msgx_logged_size s mod 4"
    by (simp add: u32_and3 ux)
  moreover have "msgx_logged_size s mod 4 < 4" by simp
  ultimately show "unat ((x AND 3) * 8) = 8 * (msgx_logged_size s mod 4)"
    using u32_times8 [of "x AND 3"] by simp
qed


lemma u32_of_unat: "unat (x::u32) = n \<Longrightarrow> x = of_nat n"
  by auto

lemma msgx_closed_form:
  assumes ok: "asm_buffer_ok s" and pos: "0 < asm_words s"
  shows "prepare_msg_and_check_it M TYPE_MSGX msk s =
    (let w = unat (asm_words s); n = msgx_logged_size s;
         s1 = s\<lparr>asm_size := 4 * asm_words s, assembled_msg := (assembled_msg s)[w := 0]\<rparr>
     in if 4 * w - 1 < n then
          (False, hex_dump_current_message False
             (report_problem2 M (ERR_MSGX_SIZE_TOO_LARGE M) (of_nat n) (of_nat (4 * w - 1)) s1))
        else if n < 4 * w - 4 then
          (False, hex_dump_current_message False
             (report_problem2 M (ERR_MSGX_SIZE_TOO_SMALL M) (of_nat n) (of_nat (4 * w - 4)) s1))
        else if \<not> (\<forall>k \<in> {n ..< 4 * w - 1}. get_byte (assembled_msg s) k = 0) then
          (False, hex_dump_current_message False (report_problem M (ERR_MSGX_CORRUPTED M) 0 s1))
        else (True, s1\<lparr>asm_size := of_nat n,
                assembled_msg := set_byte (set_byte (set_byte (set_byte (assembled_msg s1)
                         n 0) (n + 1) 0) (n + 2) 0) (n + 3) 0\<rparr>))"
proof -
  note f = msgx_facts [OF ok pos]
  define w where "w = unat (asm_words s)"
  define n where "n = msgx_logged_size s"
  define s1 where "s1 = s\<lparr>asm_size := 4 * asm_words s, assembled_msg := (assembled_msg s)[w := 0]\<rparr>"
  define x where "x = drop_bit 24 (assembled_msg s1 ! unat (asm_words s1 - 1)) AND (0xFF :: u32)"
  define lw where "lw = assembled_msg s1 ! unat (asm_words s1 - 1) AND (0x00FFFFFF :: u32)"
  have s1f: "asm_size s1 = 4 * asm_words s" "asm_words s1 = asm_words s"
      "assembled_msg s1 = (assembled_msg s)[w := 0]"
    by (simp_all add: s1_def)
  have step1: "prepare_msg_and_check_it M TYPE_MSGX msk s = prepare_message_msgx M s1"
    by (simp add: prepare_msg_and_check_it_def Let_def s1_def w_def)
  have step2: "prepare_message_msgx M s1 =
      (if x > asm_size s1 - 1 then
          (False, hex_dump_current_message False
                    (report_problem2 M (ERR_MSGX_SIZE_TOO_LARGE M) x (asm_size s1 - 1) s1))
       else if x < asm_size s1 - 4 then
          (False, hex_dump_current_message False
                    (report_problem2 M (ERR_MSGX_SIZE_TOO_SMALL M) x (asm_size s1 - 4) s1))
       else if drop_bit (unat ((x AND 3) * 8)) lw \<noteq> 0 then
            (False, hex_dump_current_message False
                      (report_problem M (ERR_MSGX_CORRUPTED M) 0 s1))
       else (True, s1\<lparr>asm_size := x,
                     assembled_msg :=
                       set_byte (set_byte (set_byte (set_byte (assembled_msg s1)
                         (unat x) 0) (unat x + 1) 0) (unat x + 2) 0)
                         (unat x + 3) 0\<rparr>))"
    unfolding prepare_message_msgx_def Let_def x_def [symmetric] lw_def [symmetric]
    using f(3) by (simp only: s1f if_False)
  have ux: "unat x = n" using f(4) by (simp add: x_def s1f w_def n_def)
  have xn: "x = of_nat n" using ux by (rule u32_of_unat)
  have c1: "x > asm_size s1 - 1 \<longleftrightarrow> 4 * w - 1 < n"
    using f(5) by (simp add: x_def s1f w_def n_def)
  have c2: "x < asm_size s1 - 4 \<longleftrightarrow> n < 4 * w - 4"
    using f(6) by (simp add: x_def s1f w_def n_def)
  have sh: "unat ((x AND 3) * 8) = 8 * (n mod 4)"
    using f(7) by (simp add: x_def s1f w_def n_def)
  have lwe: "lw = assembled_msg s ! (w - 1) AND 0x00FFFFFF"
    using f(8) by (simp add: lw_def s1f w_def)
  have m1: "asm_size s1 - 1 = of_nat (4 * w - 1)"
    using f(1,9) u32_sub_le [of 1 "4 * asm_words s"] by (intro u32_of_unat) (simp add: s1f w_def)
  have m4: "asm_size s1 - 4 = of_nat (4 * w - 4)"
    using f(1,9) u32_sub_le [of 4 "4 * asm_words s"] by (intro u32_of_unat) (simp add: s1f w_def)
  have pad: "(drop_bit (unat ((x AND 3) * 8)) lw \<noteq> 0)
        \<longleftrightarrow> \<not> (\<forall>k \<in> {n ..< 4 * w - 1}. get_byte (assembled_msg s) k = 0)"
    if "\<not> 4 * w - 1 < n" "\<not> n < 4 * w - 4"
    unfolding sh lwe
    using padding_in_message [of w n "assembled_msg s"] f(1) that by (simp add: w_def)
  have "prepare_message_msgx M s1 =
     (if 4 * w - 1 < n then
          (False, hex_dump_current_message False
             (report_problem2 M (ERR_MSGX_SIZE_TOO_LARGE M) (of_nat n) (of_nat (4 * w - 1)) s1))
        else if n < 4 * w - 4 then
          (False, hex_dump_current_message False
             (report_problem2 M (ERR_MSGX_SIZE_TOO_SMALL M) (of_nat n) (of_nat (4 * w - 4)) s1))
        else if \<not> (\<forall>k \<in> {n ..< 4 * w - 1}. get_byte (assembled_msg s) k = 0) then
          (False, hex_dump_current_message False (report_problem M (ERR_MSGX_CORRUPTED M) 0 s1))
        else (True, s1\<lparr>asm_size := of_nat n,
                assembled_msg := set_byte (set_byte (set_byte (set_byte (assembled_msg s1)
                         n 0) (n + 1) 0) (n + 2) 0) (n + 3) 0\<rparr>))"
  proof (cases "4 * w - 1 < n")
    case True
    then show ?thesis unfolding step2 c1 by (simp only: if_True xn [symmetric] m1 [symmetric])
  next
    case False
    note nl = this
    show ?thesis
    proof (cases "n < 4 * w - 4")
      case True
      then show ?thesis unfolding step2 c1 c2 using nl
        by (simp only: if_True if_False xn [symmetric] m4 [symmetric])
    next
      case False
      then show ?thesis unfolding step2 c1 c2 pad [OF nl False] using nl
        by (simp only: if_True if_False xn [symmetric] ux)
    qed
  qed
  then show ?thesis
    unfolding step1 Let_def w_def [symmetric] n_def [symmetric] s1_def [symmetric] .
qed


lemma hex_dump_bytes_same:
  "map (get_byte (m[w := v])) [0..<4 * w] = map (get_byte m) [0..<4 * w]"
proof (rule map_cong [OF refl])
  fix k assume "k \<in> set [0..<4 * w]"
  then have "k div 4 \<noteq> w" by simp
  then show "get_byte (m[w := v]) k = get_byte m k" by (rule get_byte_list_update)
qed

text \<open>
  C4. A message of kind \<open>MSGX\<close> with at least one data word is accepted exactly when
  the size logged in the last byte of its last data word is at most \<open>4 * words - 1\<close>, at
  least \<open>4 * words - 4\<close>, and the bytes of the last word from the end of the message up to
  the size byte are zero. An accepted message gets the logged size as its length, keeps
  its bytes below that size, and nothing is reported. A rejected message is reported to
  both logs with the diagnostic of the violated condition, followed in Main.log by the
  hex dump of all its bytes, and is counted as an error.
\<close>

theorem msgx_size_rule:
  assumes ok: "asm_buffer_ok s" and pos: "0 < asm_words s"
  shows "fst (prepare_msg_and_check_it M TYPE_MSGX msk s) = msgx_size_ok s
   \<and> (msgx_size_ok s \<longrightarrow>
        asm_size (snd (prepare_msg_and_check_it M TYPE_MSGX msk s)) = of_nat (msgx_logged_size s)
        \<and> (\<forall>k < msgx_logged_size s.
              get_byte (assembled_msg (snd (prepare_msg_and_check_it M TYPE_MSGX msk s))) k
              = get_byte (assembled_msg s) k)
        \<and> main_log (snd (prepare_msg_and_check_it M TYPE_MSGX msk s)) = main_log s
        \<and> error_log_file (snd (prepare_msg_and_check_it M TYPE_MSGX msk s)) = error_log_file s
        \<and> total_errors (snd (prepare_msg_and_check_it M TYPE_MSGX msk s)) = total_errors s)
   \<and> (\<not> msgx_size_ok s \<longrightarrow>
        main_log (snd (prepare_msg_and_check_it M TYPE_MSGX msk s)) =
          fprintf (HexDumpBytes (fmt_id s)
                     (map (get_byte (assembled_msg s)) [0..<4 * unat (asm_words s)]))
            (fprintf (msgx_diagnostic M s) (main_log s))
        \<and> error_log_file (snd (prepare_msg_and_check_it M TYPE_MSGX msk s)) =
            fprintf (msgx_diagnostic M s) (error_log_file s)
        \<and> total_errors (snd (prepare_msg_and_check_it M TYPE_MSGX msk s)) = total_errors s + 1
        \<and> asm_size (snd (prepare_msg_and_check_it M TYPE_MSGX msk s)) = 4 * asm_words s)"
proof -
  note f = msgx_facts [OF ok pos]
  define w where "w = unat (asm_words s)"
  define n where "n = msgx_logged_size s"
  define r where "r = prepare_msg_and_check_it M TYPE_MSGX msk s"
  have w0: "0 < w" using f(1) by (simp add: w_def)
  have nz: "asm_words s \<noteq> 0" using pos by simp
  have u4: "unat (asm_words s * 4) = 4 * w" using f(9) by (simp add: w_def mult.commute)
  have okdef: "msgx_size_ok s \<longleftrightarrow>
      \<not> 4 * w - 1 < n \<and> \<not> n < 4 * w - 4 \<and> (\<forall>k \<in> {n ..< 4 * w - 1}. get_byte (assembled_msg s) k = 0)"
    by (auto simp add: msgx_size_ok_def w_def n_def)
  consider (large) "4 * w - 1 < n" | (small) "\<not> 4 * w - 1 < n" "n < 4 * w - 4"
    | (pad) "\<not> 4 * w - 1 < n" "\<not> n < 4 * w - 4"
            "\<not> (\<forall>k \<in> {n ..< 4 * w - 1}. get_byte (assembled_msg s) k = 0)"
    | (good) "\<not> 4 * w - 1 < n" "\<not> n < 4 * w - 4"
            "\<forall>k \<in> {n ..< 4 * w - 1}. get_byte (assembled_msg s) k = 0"
    by blast
  then have "fst r = msgx_size_ok s
   \<and> (msgx_size_ok s \<longrightarrow>
        asm_size (snd r) = of_nat n
        \<and> (\<forall>k < n. get_byte (assembled_msg (snd r)) k = get_byte (assembled_msg s) k)
        \<and> main_log (snd r) = main_log s
        \<and> error_log_file (snd r) = error_log_file s
        \<and> total_errors (snd r) = total_errors s)
   \<and> (\<not> msgx_size_ok s \<longrightarrow>
        main_log (snd r) =
          fprintf (HexDumpBytes (fmt_id s) (map (get_byte (assembled_msg s)) [0..<4 * w]))
            (fprintf (msgx_diagnostic M s) (main_log s))
        \<and> error_log_file (snd r) = fprintf (msgx_diagnostic M s) (error_log_file s)
        \<and> total_errors (snd r) = total_errors s + 1
        \<and> asm_size (snd r) = 4 * asm_words s)"
  proof cases
    case large
    then have nok: "\<not> msgx_size_ok s" by (simp add: okdef)
    have d: "msgx_diagnostic M s = Problem2 (message_cnt s)
               (problem2_code M (ERR_MSGX_SIZE_TOO_LARGE M)) (of_nat n) (of_nat (4 * w - 1))"
      using large by (simp add: msgx_diagnostic_def w_def n_def)
    have "r = (False, hex_dump_current_message False
             (report_problem2 M (ERR_MSGX_SIZE_TOO_LARGE M) (of_nat n) (of_nat (4 * w - 1))
                (s\<lparr>asm_size := 4 * asm_words s, assembled_msg := (assembled_msg s)[w := 0]\<rparr>)))"
      unfolding r_def msgx_closed_form [OF ok pos] Let_def
      using large by (simp add: w_def n_def)
    then show ?thesis
      using nok nz
      by (simp add: d hex_dump_current_message_def report_problem2_def Let_def u4
            hex_dump_bytes_same)
  next
    case small
    then have nok: "\<not> msgx_size_ok s" by (simp add: okdef)
    have d: "msgx_diagnostic M s = Problem2 (message_cnt s)
               (problem2_code M (ERR_MSGX_SIZE_TOO_SMALL M)) (of_nat n) (of_nat (4 * w - 4))"
      using small by (simp add: msgx_diagnostic_def w_def n_def)
    have "r = (False, hex_dump_current_message False
             (report_problem2 M (ERR_MSGX_SIZE_TOO_SMALL M) (of_nat n) (of_nat (4 * w - 4))
                (s\<lparr>asm_size := 4 * asm_words s, assembled_msg := (assembled_msg s)[w := 0]\<rparr>)))"
      unfolding r_def msgx_closed_form [OF ok pos] Let_def
      using small by (simp add: w_def n_def)
    then show ?thesis
      using nok nz
      by (simp add: d hex_dump_current_message_def report_problem2_def Let_def u4
            hex_dump_bytes_same)
  next
    case pad
    then have nok: "\<not> msgx_size_ok s" by (simp add: okdef)
    have d: "msgx_diagnostic M s =
               Problem (message_cnt s) (problem_code M (ERR_MSGX_CORRUPTED M)) 0"
      using pad by (simp add: msgx_diagnostic_def w_def n_def)
    have "r = (False, hex_dump_current_message False
             (report_problem M (ERR_MSGX_CORRUPTED M) 0
                (s\<lparr>asm_size := 4 * asm_words s, assembled_msg := (assembled_msg s)[w := 0]\<rparr>)))"
      unfolding r_def msgx_closed_form [OF ok pos] Let_def
      using pad by (simp add: w_def n_def)
    then show ?thesis
      using nok nz
      by (simp add: d hex_dump_current_message_def report_problem_def Let_def u4
            hex_dump_bytes_same)
  next
    case good
    then have isok: "msgx_size_ok s" by (simp add: okdef)
    have req: "r = (True, s\<lparr>asm_size := of_nat n,
                assembled_msg := set_byte (set_byte (set_byte (set_byte ((assembled_msg s)[w := 0])
                         n 0) (n + 1) 0) (n + 2) 0) (n + 3) 0\<rparr>)"
      unfolding r_def msgx_closed_form [OF ok pos] Let_def
      using good by (simp add: w_def n_def)
    have bytes: "get_byte (set_byte (set_byte (set_byte (set_byte ((assembled_msg s)[w := 0])
                         n 0) (n + 1) 0) (n + 2) 0) (n + 3) 0) k = get_byte (assembled_msg s) k"
      if "k < n" for k
    proof -
      from that good(1) w0 have "k div 4 \<noteq> w" by simp
      with that show ?thesis
        by (simp add: get_byte_set_byte_other get_byte_list_update)
    qed
    show ?thesis using isok bytes by (simp add: req)
  qed
  then show ?thesis unfolding r_def w_def n_def .
qed

theorem msgx_size_rule_witness:
  "asm_buffer_ok msgx_hello \<and> 0 < asm_words msgx_hello
   \<and> msgx_logged_size msgx_hello = 5
   \<and> fst (prepare_msg_and_check_it example_messages TYPE_MSGX 0 msgx_hello)
   \<and> asm_size (snd (prepare_msg_and_check_it example_messages TYPE_MSGX 0 msgx_hello)) = 5
   \<and> \<not> fst (prepare_msg_and_check_it example_messages TYPE_MSGX 0 msgx_corrupted)
   \<and> main_log (snd (prepare_msg_and_check_it example_messages TYPE_MSGX 0 msgx_corrupted)) =
       Some [Problem 1 123 0, HexDumpBytes 32 [0x68, 0x65, 0x6C, 0x6C, 0x6F, 0x01, 0, 0x05]]"
  using msgx_size_rule [of msgx_hello example_messages 0]
    msgx_size_rule [of msgx_corrupted example_messages 0]
  by (simp add: msgx_hello_def msgx_corrupted_def g_msg_init_def example_messages_def
        asm_buffer_ok_def msgx_size_ok_def msgx_logged_size_def msgx_diagnostic_def
        get_byte_def fprintf_def problem_code_def FIRST_FATAL_ERROR_def
        atLeastLessThan_upt upt_rec)

section \<open>Selecting an indexed text\<close>

lemma len_byte: "option_ok opt \<Longrightarrow> unat (of_nat (length opt) :: u8) = length opt \<and> (of_nat (length opt) :: u8) \<noteq> 0"
proof -
  assume "option_ok opt"
  then have l: "1 \<le> length opt" "length opt < 2 ^ 8" by (simp_all add: option_ok_def)
  then have u: "unat (of_nat (length opt) :: u8) = length opt"
    by (simp add: unat_of_nat take_bit_nat_eq_self)
  with l show ?thesis using unat_0_iff [of "of_nat (length opt) :: u8"] by auto
qed

lemma strncpy_option:
  "0 \<notin> set opt \<Longrightarrow> strncpy_string (pre @ opt @ rest) (length pre) (length opt) = Some opt"
proof (induction opt arbitrary: pre)
  case Nil
  then show ?case by simp
next
  case (Cons b opt)
  have "strncpy_string ((pre @ [b]) @ opt @ rest) (length (pre @ [b])) (length opt) = Some opt"
    using Cons by (intro Cons.IH) simp
  then show ?case using Cons.prems by (simp add: peek_def nth_append)
qed

lemma skip_texts_selects:
  assumes "\<forall>opt \<in> set (o1 # opts). option_ok opt"
  shows "skip_texts (pre @ indexed_text (o1 # opts)) (length pre) (length o1) i =
     Some (length pre + length (concat (map (\<lambda>opt. of_nat (length opt) # opt) (take (min i (length opts)) (o1 # opts)))),
           length ((o1 # opts) ! min i (length opts)))"
  using assms
proof (induction i arbitrary: pre o1 opts)
  case 0
  then show ?case by simp
next
  case (Suc i)
  show ?case
  proof (cases opts)
    case Nil
    then show ?thesis by (simp add: peek_def nth_append)
  next
    case (Cons o2 os)
    have ok2: "option_ok o2" and rest: "\<forall>opt \<in> set (o2 # os). option_ok opt"
      using Suc.prems Cons by simp_all
    let ?pre = "pre @ of_nat (length o1) # o1"
    have ih: "skip_texts (?pre @ indexed_text (o2 # os)) (length ?pre) (length o2) i =
       Some (length ?pre + length (concat (map (\<lambda>opt. of_nat (length opt) # opt) (take (min i (length os)) (o2 # os)))),
           length ((o2 # os) ! min i (length os)))"
      using rest by (rule Suc.IH)
    have rd: "peek (pre @ indexed_text (o1 # opts)) (length pre + (1 + length o1)) = Some (of_nat (length o2))"
      by (simp add: Cons peek_def nth_append)
    show ?thesis
      using ih len_byte [OF ok2] rd
      by (simp add: Cons add.commute)
  qed
qed


lemma indexed_text_split:
  "j < length opts \<Longrightarrow>
   indexed_text opts =
     concat (map (\<lambda>opt. of_nat (length opt) # opt) (take j opts))
       @ of_nat (length (opts ! j)) # (opts ! j) @ indexed_text (drop (Suc j) opts)"
proof (induction opts arbitrary: j)
  case Nil
  then show ?case by simp
next
  case (Cons a opts)
  then show ?case by (cases j) simp_all
qed

text \<open>
  C6. The entry \<open>in_file\<close> of the enum table holds the indexed text of at least two
  well-formed options. Then \<open>get_selected_text\<close>, called with the selector \<open>v\<close> (an
  \<open>unsigned\<close>, which \<open>print_selected_text\<close> obtains from the 64-bit value register by a
  cast), returns the option with index \<open>v\<close>, counted from zero, when \<open>v\<close> is below the
  number of options, and the last option otherwise; no error is recorded.
\<close>

theorem selected_text_clamps:
  assumes n2: "2 \<le> length opts"
    and ok: "\<forall>opt \<in> set opts. option_ok opt"
    and idx: "unat in_file_idx < MAX_ENUMS"
    and ty: "type (enums s (unat in_file_idx)) = Y_TEXT_TYPE
             \<or> type (enums s (unat in_file_idx)) = IN_FILE_TYPE"
    and blob: "payload (enums s (unat in_file_idx)) = in_file_txt (Some (indexed_text opts))"
  shows "get_selected_text M in_file_idx v txt_buffer s =
           Some (if unat v < length opts then opts ! unat v else last opts, s)"
proof -
  from n2 obtain o1 rest where opts: "opts = o1 # rest" by (cases opts) auto
  define j where "j = min (unat v) (length rest)"
  have jn: "j < length opts" by (simp add: j_def opts)
  have sel: "(if unat v < length opts then opts ! unat v else last opts) = opts ! j"
    using jn by (auto simp add: j_def opts last_conv_nth min_def)
  define pre where "pre = concat (map (\<lambda>opt. of_nat (length opt) # opt) (take j opts))"
  have ok1: "option_ok o1" and okj: "option_ok (opts ! j)"
    using ok jn by (simp_all add: opts del: nth_mem) (metis nth_mem opts ok jn)
  have first: "peek (indexed_text opts) 0 = Some (of_nat (length o1))"
    by (simp add: opts peek_def)
  have skip: "skip_texts (indexed_text opts) 0 (length o1) (unat v) = Some (length pre, length (opts ! j))"
    using skip_texts_selects [of o1 rest "[]" "unat v"] ok
    by (simp add: opts pre_def j_def)
  have split: "indexed_text opts =
      (pre @ [of_nat (length (opts ! j))]) @ (opts ! j) @ indexed_text (drop (Suc j) opts)"
    using indexed_text_split [OF jn] by (simp add: pre_def)
  have "strncpy_string ((pre @ [of_nat (length (opts ! j))]) @ (opts ! j)
           @ indexed_text (drop (Suc j) opts))
          (length (pre @ [of_nat (length (opts ! j))])) (length (opts ! j)) = Some (opts ! j)"
    using okj by (intro strncpy_option) (simp add: option_ok_def)
  then have copy: "strncpy_string (indexed_text opts) (length pre + 1) (length (opts ! j)) = Some (opts ! j)"
    using split by simp
  have pos: "0 < length (opts ! j)" using okj by (auto simp add: option_ok_def)
  have "copy_selected_text (Some (indexed_text opts)) v = Some (opts ! j, opts ! j)"
    using len_byte [OF ok1] pos copy
    by (simp add: copy_selected_text_def first skip)
  then show ?thesis
    using idx ty by (auto simp add: get_selected_text_def blob sel)
qed

theorem selected_text_clamps_witness:
  "get_selected_text example_messages 50 1 [] y_text_example
     = Some (bytes_of ''warn'', y_text_example)
   \<and> get_selected_text example_messages 50 5 [] y_text_example
     = Some (bytes_of ''err'', y_text_example)
   \<and> get_selected_text example_messages 50 0 [] y_text_example
     = Some (bytes_of ''ok'', y_text_example)"
  using selected_text_clamps [of status_texts 50 y_text_example example_messages 1 "[]"]
    selected_text_clamps [of status_texts 50 y_text_example example_messages 5 "[]"]
    selected_text_clamps [of status_texts 50 y_text_example example_messages 0 "[]"]
  by (simp add: status_texts_def y_text_example_def g_msg_init_def option_ok_def
        bytes_of_def MAX_ENUMS_def)

end
